theory Spec2Isabelle
  imports Complex_Main
begin

section \<open>Values of the trajectory helper\<close>

text \<open>
  The module under study is \<^verbatim>\<open>xviz-trajectory-helper.js\<close>. Numbers are modelled as
  exact reals, frame numbers as integers. A field that may be absent from a JavaScript
  object is an \<open>option\<close>; reading an absent field gives \<^verbatim>\<open>undefined\<close>.
\<close>

type_synonym vec3 = "real \<times> real \<times> real"

text \<open>
  Every fault of the module is a JavaScript \<^verbatim>\<open>TypeError\<close> raised by reading a
  property of \<^verbatim>\<open>undefined\<close> or \<^verbatim>\<open>null\<close>. The constructors record where it is raised:
  \<^item> \<open>UndefinedPoseFrame\<close>: \<^verbatim>\<open>poses[i].pose\<close> with \<^verbatim>\<open>poses[i]\<close> undefined;
  \<^item> \<open>UndefinedFrameObjects\<close>: \<^verbatim>\<open>objects.find(...)\<close> in \<^verbatim>\<open>getObjectMotions\<close>, the
    lookup step, with \<^verbatim>\<open>objects\<close> undefined or null;
  \<^item> \<open>UndefinedMotion\<close>: \<^verbatim>\<open>step.x\<close> in the loop of \<^verbatim>\<open>getObjectTrajectory\<close> with
    \<^verbatim>\<open>step\<close> undefined.
\<close>

datatype fault = UndefinedPoseFrame | UndefinedFrameObjects | UndefinedMotion

datatype 'a js_value = Undefined | Null | Value 'a

text \<open>Reading \<^verbatim>\<open>xs[k]\<close> on a JavaScript array: \<^verbatim>\<open>undefined\<close> outside the array.\<close>

definition arrayAt :: "'a list \<Rightarrow> int \<Rightarrow> 'a option" where
  "arrayAt xs k = (if 0 \<le> k \<and> k < int (length xs) then Some (xs ! nat k) else None)"

text \<open>The JavaScript idiom \<^verbatim>\<open>v || 0\<close> on a numeric field that may be absent.\<close>

definition orZero :: "real option \<Rightarrow> real" where
  "orZero v = (case v of None \<Rightarrow> 0 | Some r \<Rightarrow> r)"

text \<open>
  A pose object \<^verbatim>\<open>{x, y, z, longitude, latitude, altitude, roll, pitch, yaw}\<close>, and a
  frame of the pose array, an object with a \<^verbatim>\<open>pose\<close> entry.
\<close>

record geo_pose =
  pose_x :: "real option"
  pose_y :: "real option"
  pose_z :: "real option"
  longitude :: "real option"
  latitude :: "real option"
  altitude :: "real option"
  roll :: "real option"
  pitch :: "real option"
  yaw :: "real option"

record pose_frame =
  pose :: geo_pose

text \<open>
  An object record \<^verbatim>\<open>{id, x, y, z, firstFrame, lastFrame}\<close>; the target object of a
  trajectory is one of them.
\<close>

record object_record =
  obj_id :: string
  obj_x :: real
  obj_y :: real
  obj_z :: real
  firstFrame :: int
  lastFrame :: int

text \<open>
  The frames of objects: a \<^verbatim>\<open>Map\<close> keyed by frame number, an \<^verbatim>\<open>Array\<close>, or any
  other value.
\<close>

datatype 'a frames = MapFrames "int \<Rightarrow> 'a option" | ArrayFrames "'a list" | OtherFrames

section \<open>Frame lookup\<close>

definition getFrameObjects :: "'a frames \<Rightarrow> int \<Rightarrow> 'a js_value" where
  "getFrameObjects frames frameNumber =
     (case frames of
        MapFrames m \<Rightarrow> (case m frameNumber of None \<Rightarrow> Undefined | Some v \<Rightarrow> Value v)
      | ArrayFrames a \<Rightarrow> (case arrayAt a frameNumber of None \<Rightarrow> Undefined | Some v \<Rightarrow> Value v)
      | OtherFrames \<Rightarrow> Null)"

text \<open>
  A \<^verbatim>\<open>Map\<close> is equivalent to an array when it maps exactly each index of the array to
  the element at that index.
\<close>

definition mapOfArray :: "'a list \<Rightarrow> int \<Rightarrow> 'a option" where
  "mapOfArray a = (\<lambda>k. if 0 \<le> k \<and> k < int (length a) then Some (a ! nat k) else None)"

section \<open>The geodesy primitives\<close>

text \<open>
  The helper calls \<^verbatim>\<open>addMetersToLngLat\<close> (viewport-mercator-project) and
  \<^verbatim>\<open>distance\<close>, \<^verbatim>\<open>bearing\<close> and \<^verbatim>\<open>degreesToRadians\<close> (turf). These are
  third-party libraries, not part of the repository: every function of the helper that
  reaches them takes them as the parameter \<open>geo\<close>. Coordinates are triples
  \<open>(longitude, latitude, altitude)\<close>; \<open>distance\<close> is the call with
  \<^verbatim>\<open>{units: 'meters'}\<close>.
\<close>

record geodesy =
  addMetersToLngLat :: "vec3 \<Rightarrow> vec3 \<Rightarrow> vec3"
  distance :: "vec3 \<Rightarrow> vec3 \<Rightarrow> real"
  bearing :: "vec3 \<Rightarrow> vec3 \<Rightarrow> real"
  degreesToRadians :: "real \<Rightarrow> real"

fun altitudeOf :: "vec3 \<Rightarrow> real" where
  "altitudeOf (lng, lat, alt) = alt"

definition getGeospatialVector :: "geodesy \<Rightarrow> geo_pose \<Rightarrow> geo_pose \<Rightarrow> vec3" where
  "getGeospatialVector geo from to =
     (let fromCoord = addMetersToLngLat geo
            (orZero (longitude from), orZero (latitude from), orZero (altitude from))
            (orZero (pose_x from), orZero (pose_y from), orZero (pose_z from));
          toCoord = addMetersToLngLat geo
            (orZero (longitude to), orZero (latitude to), orZero (altitude to))
            (orZero (pose_x to), orZero (pose_y to), orZero (pose_z to));
          distInMeters = distance geo fromCoord toCoord;
          bearingInDegrees = bearing geo fromCoord toCoord;
          bearingInRadians = degreesToRadians geo bearingInDegrees;
          diffZ = altitudeOf toCoord - altitudeOf fromCoord
      in (distInMeters * sin bearingInRadians, distInMeters * cos bearingInRadians, diffZ))"

section \<open>Rigid transforms\<close>

text \<open>
  Modelled from the spec: the \<^verbatim>\<open>Matrix4\<close> and \<^verbatim>\<open>Pose\<close> classes of math.gl, with which
  the helper builds its matrices. math.gl is a third-party library and is not under
  src/; its functions follow the spec's section 4.1 (RigidPose), except the composition
  of two poses, which follows the method of the library. The 4x4 matrix of a rigid
  transform is kept as its 3x3 linear block, by rows, and its translation column; the
  bottom row is always \<open>(0, 0, 0, 1)\<close>.
\<close>

type_synonym mat3 = "vec3 \<times> vec3 \<times> vec3"

record matrix4 =
  linearBlock :: mat3
  translation :: vec3

fun vadd :: "vec3 \<Rightarrow> vec3 \<Rightarrow> vec3" where
  "vadd (a, b, c) (x, y, z) = (a + x, b + y, c + z)"

fun vneg :: "vec3 \<Rightarrow> vec3" where
  "vneg (x, y, z) = (- x, - y, - z)"

fun mat3_apply :: "mat3 \<Rightarrow> vec3 \<Rightarrow> vec3" where
  "mat3_apply ((a11, a12, a13), (a21, a22, a23), (a31, a32, a33)) (x, y, z) =
     (a11 * x + a12 * y + a13 * z,
      a21 * x + a22 * y + a23 * z,
      a31 * x + a32 * y + a33 * z)"

fun mat3_mul :: "mat3 \<Rightarrow> mat3 \<Rightarrow> mat3" where
  "mat3_mul ((a11, a12, a13), (a21, a22, a23), (a31, a32, a33))
            ((b11, b12, b13), (b21, b22, b23), (b31, b32, b33)) =
     ((a11 * b11 + a12 * b21 + a13 * b31,
       a11 * b12 + a12 * b22 + a13 * b32,
       a11 * b13 + a12 * b23 + a13 * b33),
      (a21 * b11 + a22 * b21 + a23 * b31,
       a21 * b12 + a22 * b22 + a23 * b32,
       a21 * b13 + a22 * b23 + a23 * b33),
      (a31 * b11 + a32 * b21 + a33 * b31,
       a31 * b12 + a32 * b22 + a33 * b32,
       a31 * b13 + a32 * b23 + a33 * b33))"

fun mat3_transpose :: "mat3 \<Rightarrow> mat3" where
  "mat3_transpose ((a11, a12, a13), (a21, a22, a23), (a31, a32, a33)) =
     ((a11, a21, a31), (a12, a22, a32), (a13, a23, a33))"

definition mat3_identity :: mat3 where
  "mat3_identity = ((1, 0, 0), (0, 1, 0), (0, 0, 1))"

text \<open>
  Modelled from the spec: the \<^verbatim>\<open>Pose\<close> class of math.gl, which is not under src/. A
  \<^verbatim>\<open>Pose\<close> is built from an object with optional \<^verbatim>\<open>x, y, z, roll, pitch, yaw\<close>, each
  defaulting to 0 (section 3: position default 0 if absent).
\<close>

record math_pose =
  position :: vec3
  orientation :: vec3

definition Pose :: "geo_pose \<Rightarrow> math_pose" where
  "Pose p = \<lparr>position = (orZero (pose_x p), orZero (pose_y p), orZero (pose_z p)),
            orientation = (orZero (roll p), orZero (pitch p), orZero (yaw p))\<rparr>"

text \<open>
  Modelled from the spec: the rotation by \<open>(roll, pitch, yaw)\<close> of section 4.1, taken
  as the yaw-pitch-roll rotation matrix (yaw about z, then pitch about y, then roll
  about x).
\<close>

fun rotationMatrix :: "vec3 \<Rightarrow> mat3" where
  "rotationMatrix (r, p, w) =
     ((cos w * cos p, - sin w * cos r + cos w * sin p * sin r, sin w * sin r + cos w * sin p * cos r),
      (sin w * cos p, cos w * cos r + sin w * sin p * sin r, - cos w * sin r + sin w * sin p * cos r),
      (- sin p, cos p * sin r, cos p * cos r))"

text \<open>
  Modelled from the spec: \<open>transformationMatrix(pose)\<close>, ``the matrix mapping a point
  in the pose's local frame to world-local coordinates (translation by \<open>(x, y, z)\<close>
  composed with rotation by \<open>(roll, pitch, yaw)\<close>)''.
\<close>

definition getTransformationMatrix :: "math_pose \<Rightarrow> matrix4" where
  "getTransformationMatrix P = \<lparr>linearBlock = rotationMatrix (orientation P), translation = position P\<rparr>"

text \<open>
  Modelled from the spec: \<open>invert(matrix)\<close>, ``the standard rigid-transform inverse'':
  the transposed rotation, and the translation taken back through it.
\<close>

definition invert :: "matrix4 \<Rightarrow> matrix4" where
  "invert M = \<lparr>linearBlock = mat3_transpose (linearBlock M),
               translation = vneg (mat3_apply (mat3_transpose (linearBlock M)) (translation M))\<rparr>"

text \<open>Modelled from the spec: the product of two matrices, \<open>A\<close> applied after \<open>B\<close>.\<close>

definition multiplyRight :: "matrix4 \<Rightarrow> matrix4 \<Rightarrow> matrix4" where
  "multiplyRight A B = \<lparr>linearBlock = mat3_mul (linearBlock A) (linearBlock B),
                        translation = vadd (mat3_apply (linearBlock A) (translation B)) (translation A)\<rparr>"

text \<open>
  Modelled from the spec: \<^verbatim>\<open>Matrix4.transformVector\<close> on a 3-vector, the matrix applied
  to a point (section 4.1: all transforms operate on 3-vectors, or homogeneous
  4-vectors internally).
\<close>

definition transformVector :: "matrix4 \<Rightarrow> vec3 \<Rightarrow> vec3" where
  "transformVector M v = vadd (mat3_apply (linearBlock M) v) (translation M)"

text \<open>
  Modelled from the spec: \<^verbatim>\<open>fromPose.getTransformationMatrixFromPose(toPose)\<close> of math.gl,
  which is not under src/. The spec's section 9 reports that the source calls this method
  because the two constructions of math.gl are swapped, and leaves the direction to be
  validated against the library. The method is
  \<^verbatim>\<open>new Matrix4().multiplyRight(this.getTransformationMatrix())
    .multiplyRight(pose.getTransformationMatrix().invert())\<close>:
  the matrix of the receiver times the inverse of the matrix of the argument. For a
  receiver that is rotated this is not the composition that section 4.1 describes.
\<close>

definition getTransformationMatrixFromPose :: "math_pose \<Rightarrow> math_pose \<Rightarrow> matrix4" where
  "getTransformationMatrixFromPose this other =
     multiplyRight (getTransformationMatrix this) (invert (getTransformationMatrix other))"

section \<open>The trajectory of the platform\<close>

text \<open>
  The first loop of \<^verbatim>\<open>getPoseTrajectory\<close>:
  \<^verbatim>\<open>for (let i = startFrame; i < iterationLimit; i++) positions.push(poses[i].pose)\<close>.
\<close>

function collectPoses :: "pose_frame list \<Rightarrow> int \<Rightarrow> int \<Rightarrow> geo_pose list \<Rightarrow> fault + geo_pose list" where
  "collectPoses poses i iterationLimit positions =
     (if i < iterationLimit then
        (case arrayAt poses i of
           None \<Rightarrow> Inl UndefinedPoseFrame
         | Some frame \<Rightarrow> collectPoses poses (i + 1) iterationLimit (positions @ [pose frame]))
      else Inr positions)"
  by pat_completeness auto
termination
  by (relation "measure (\<lambda>(poses, i, iterationLimit, positions). nat (iterationLimit - i))") auto

definition getPoseTrajectory :: "geodesy \<Rightarrow> pose_frame list \<Rightarrow> int \<Rightarrow> int \<Rightarrow> fault + vec3 list" where
  "getPoseTrajectory geo poses startFrame endFrame =
     (let iterationLimit = min endFrame (int (length poses)) in
      case collectPoses poses startFrame iterationLimit [] of
        Inl e \<Rightarrow> Inl e
      | Inr positions \<Rightarrow>
          (case arrayAt poses startFrame of
             None \<Rightarrow> Inl UndefinedPoseFrame
           | Some frame \<Rightarrow>
               (let startPose = pose frame;
                    transformMatrix = invert (getTransformationMatrix (Pose startPose))
                in Inr (map (\<lambda>currPose.
                              transformVector transformMatrix
                                (getGeospatialVector geo startPose currPose))
                            positions))))"

section \<open>The transform between two geospatial poses\<close>

definition getGeospatialToPoseTransform :: "geodesy \<Rightarrow> geo_pose \<Rightarrow> geo_pose \<Rightarrow> matrix4" where
  "getGeospatialToPoseTransform geo from to =
     (case getGeospatialVector geo from to of
        (offset0, offset1, offset2) \<Rightarrow>
          (let fromPose = Pose \<lparr>pose_x = Some 0, pose_y = Some 0, pose_z = Some 0,
                                 longitude = None, latitude = None, altitude = None,
                                 roll = roll from, pitch = pitch from, yaw = yaw from\<rparr>;
               toPose = Pose \<lparr>pose_x = Some offset0, pose_y = Some offset1, pose_z = Some offset2,
                               longitude = None, latitude = None, altitude = None,
                               roll = roll to, pitch = pitch to, yaw = yaw to\<rparr>
           in getTransformationMatrixFromPose fromPose toPose))"

section \<open>The trajectory of an object\<close>

text \<open>
  The loop of \<^verbatim>\<open>getObjectMotions\<close>. \<^verbatim>\<open>Array.prototype.find\<close> returns \<^verbatim>\<open>undefined\<close>
  when no element matches, and the loop pushes that value; \<^verbatim>\<open>objects.find\<close> throws
  when \<^verbatim>\<open>objects\<close> is \<^verbatim>\<open>undefined\<close> or \<^verbatim>\<open>null\<close>.
\<close>

function motionsLoop ::
  "object_record \<Rightarrow> object_record list frames \<Rightarrow> int \<Rightarrow> int \<Rightarrow> object_record option list
     \<Rightarrow> fault + object_record option list" where
  "motionsLoop targetObject objectFrames i endFrame motions =
     (if i < endFrame then
        (case getFrameObjects objectFrames i of
           Value objects \<Rightarrow>
             motionsLoop targetObject objectFrames (i + 1) endFrame
               (motions @ [find (\<lambda>obj. obj_id obj = obj_id targetObject) objects])
         | Undefined \<Rightarrow> Inl UndefinedFrameObjects
         | Null \<Rightarrow> Inl UndefinedFrameObjects)
      else Inr motions)"
  by pat_completeness auto
termination
  by (relation "measure (\<lambda>(targetObject, objectFrames, i, endFrame, motions). nat (endFrame - i))") auto

definition getObjectMotions ::
  "object_record \<Rightarrow> object_record list frames \<Rightarrow> int \<Rightarrow> int \<Rightarrow> fault + object_record option list" where
  "getObjectMotions targetObject objectFrames startFrame endFrame =
     (let startFrame' = max (firstFrame targetObject) startFrame;
          endFrame' = min (lastFrame targetObject) endFrame
      in motionsLoop targetObject objectFrames startFrame' endFrame' [])"

text \<open>
  The loop of \<^verbatim>\<open>getObjectTrajectory\<close>, \<^verbatim>\<open>for (let i = 0; i < motions.length; i++)\<close>. Its
  body reads \<^verbatim>\<open>poseFrames[startFrame + i].pose\<close>, builds the matrix, and then reads
  \<^verbatim>\<open>step.x\<close>, in that order.
\<close>

function verticesLoop ::
  "geodesy \<Rightarrow> pose_frame list \<Rightarrow> int \<Rightarrow> geo_pose \<Rightarrow> object_record option list \<Rightarrow> nat \<Rightarrow> vec3 list
     \<Rightarrow> fault + vec3 list" where
  "verticesLoop geo poseFrames startFrame startVehiclePose motions i vertices =
     (if i < length motions then
        (case arrayAt poseFrames (startFrame + int i) of
           None \<Rightarrow> Inl UndefinedPoseFrame
         | Some frame \<Rightarrow>
             (case motions ! i of
                None \<Rightarrow> Inl UndefinedMotion
              | Some step \<Rightarrow>
                  verticesLoop geo poseFrames startFrame startVehiclePose motions (i + 1)
                    (vertices @
                       [transformVector
                          (getGeospatialToPoseTransform geo (pose frame) startVehiclePose)
                          (obj_x step, obj_y step, obj_z step)])))
      else Inr vertices)"
  by pat_completeness auto
termination
  by (relation "measure (\<lambda>(geo, poseFrames, startFrame, startVehiclePose, motions, i, vertices).
                            length motions - i)") auto

definition getObjectTrajectory ::
  "geodesy \<Rightarrow> object_record \<Rightarrow> object_record list frames \<Rightarrow> pose_frame list \<Rightarrow> int \<Rightarrow> int
     \<Rightarrow> fault + vec3 list" where
  "getObjectTrajectory geo targetObject objectFrames poseFrames startFrame endFrame =
     (case arrayAt poseFrames startFrame of
        None \<Rightarrow> Inl UndefinedPoseFrame
      | Some frame \<Rightarrow>
          (let startVehiclePose = pose frame;
               limit = min endFrame (lastFrame targetObject)
           in case getObjectMotions targetObject objectFrames startFrame limit of
                Inl e \<Rightarrow> Inl e
              | Inr motions \<Rightarrow>
                  verticesLoop geo poseFrames startFrame startVehiclePose motions 0 []))"

section \<open>A great-circle instance of the geodesy primitives\<close>

text \<open>
  Modelled from the spec: an instance \<open>great_circle\<close> of the geodesy primitives, on which
  concrete inputs are evaluated. It follows the spec's section 4.2: the great-circle
  surface distance by the haversine formula, the initial bearing by the forward azimuth,
  in degrees clockwise from north, and a geodetic offset that moves the anchor along a
  great circle. Angles of coordinates are in degrees.
\<close>

text \<open>The two-argument arctangent, as \<^verbatim>\<open>Math.atan2(y, x)\<close> on real numbers.\<close>

definition atan2 :: "real \<Rightarrow> real \<Rightarrow> real" where
  "atan2 y x =
     (if 0 < x then arctan (y / x)
      else if x < 0 then (if 0 \<le> y then arctan (y / x) + pi else arctan (y / x) - pi)
      else if 0 < y then pi / 2
      else if y < 0 then - (pi / 2)
      else 0)"

definition earthRadius :: real where
  "earthRadius = 6371008.8"

definition toRadians :: "real \<Rightarrow> real" where
  "toRadians d = d * pi / 180"

definition toDegrees :: "real \<Rightarrow> real" where
  "toDegrees r = r * 180 / pi"

text \<open>Modelled from the spec: the great-circle surface distance, in meters (haversine).\<close>

fun greatCircleDistance :: "vec3 \<Rightarrow> vec3 \<Rightarrow> real" where
  "greatCircleDistance (lng1, lat1, alt1) (lng2, lat2, alt2) =
     (let dLat = toRadians (lat2 - lat1);
          dLon = toRadians (lng2 - lng1);
          a = (sin (dLat / 2))\<^sup>2 + (sin (dLon / 2))\<^sup>2 * cos (toRadians lat1) * cos (toRadians lat2)
      in earthRadius * (2 * atan2 (sqrt a) (sqrt (1 - a))))"

text \<open>
  Modelled from the spec: the initial bearing, in degrees clockwise from north (forward
  azimuth).
\<close>

fun initialBearing :: "vec3 \<Rightarrow> vec3 \<Rightarrow> real" where
  "initialBearing (lng1, lat1, alt1) (lng2, lat2, alt2) =
     (let lon1 = toRadians lng1; lon2 = toRadians lng2;
          la1 = toRadians lat1; la2 = toRadians lat2;
          a = sin (lon2 - lon1) * cos la2;
          b = cos la1 * sin la2 - sin la1 * cos la2 * cos (lon2 - lon1)
      in toDegrees (atan2 a b))"

text \<open>
  Modelled from the spec: the geodetic-offset primitive, ``great-circle-accurate, not
  flat-earth''. The spec gives no formula; the anchor is moved by the length of
  \<open>(x, y)\<close> along the great circle that leaves it with the bearing of \<open>(x, y)\<close>, and
  \<open>z\<close> is added to the altitude.
\<close>

fun addMetersGreatCircle :: "vec3 \<Rightarrow> vec3 \<Rightarrow> vec3" where
  "addMetersGreatCircle (lng, lat, alt) (x, y, z) =
     (let delta = sqrt (x\<^sup>2 + y\<^sup>2) / earthRadius;
          theta = atan2 x y;
          phi1 = toRadians lat;
          phi2 = arcsin (sin phi1 * cos delta + cos phi1 * sin delta * cos theta);
          lambda2 = toRadians lng
            + atan2 (sin theta * sin delta * cos phi1) (cos delta - sin phi1 * sin phi2)
      in (toDegrees lambda2, toDegrees phi2, alt + z))"

definition great_circle :: geodesy where
  "great_circle = \<lparr>addMetersToLngLat = addMetersGreatCircle,
                    distance = greatCircleDistance,
                    bearing = initialBearing,
                    degreesToRadians = toRadians\<rparr>"

section \<open>Example inputs and notions of the properties\<close>

text \<open>The rotation block of the matrix that math.gl builds for a pose object.\<close>

definition poseRotation :: "geo_pose \<Rightarrow> mat3" where
  "poseRotation p = rotationMatrix (orZero (roll p), orZero (pitch p), orZero (yaw p))"

text \<open>The pose object \<^verbatim>\<open>{longitude: lng, latitude: lat}\<close>, every other field absent.\<close>

definition poseAt :: "real \<Rightarrow> real \<Rightarrow> geo_pose" where
  "poseAt lng lat = \<lparr>pose_x = None, pose_y = None, pose_z = None,
                      longitude = Some lng, latitude = Some lat, altitude = None,
                      roll = None, pitch = None, yaw = None\<rparr>"

text \<open>
  Two frames of a platform that stays at longitude 0, latitude 0 and turns by a quarter
  turn of yaw between frame 0 and frame 1.
\<close>

definition turningPoses :: "pose_frame list" where
  "turningPoses = [\<lparr>pose = poseAt 0 0\<rparr>, \<lparr>pose = (poseAt 0 0)\<lparr>yaw := Some (pi / 2)\<rparr>\<rparr>]"

text \<open>Two frames of a platform that moves from (0, 0) to longitude 90, latitude 45.\<close>

definition movingPoses :: "pose_frame list" where
  "movingPoses = [\<lparr>pose = poseAt 0 0\<rparr>, \<lparr>pose = poseAt 90 45\<rparr>]"

text \<open>
  Three records for the displacement vector: an anchor at (0, 0) with altitude 10 and
  the local offset \<^verbatim>\<open>z: 2\<close>, and two records without altitude and with \<^verbatim>\<open>z: 5\<close>, one
  at latitude 0.001 and one at longitude 90.
\<close>

definition raisedAnchor :: geo_pose where
  "raisedAnchor = \<lparr>pose_x = None, pose_y = None, pose_z = Some 2,
                    longitude = Some 0, latitude = Some 0, altitude = Some 10,
                    roll = None, pitch = None, yaw = None\<rparr>"

definition northRecord :: geo_pose where
  "northRecord = \<lparr>pose_x = None, pose_y = None, pose_z = Some 5,
                   longitude = None, latitude = Some (1 / 1000), altitude = None,
                   roll = None, pitch = None, yaw = None\<rparr>"

definition eastRecord :: geo_pose where
  "eastRecord = \<lparr>pose_x = None, pose_y = None, pose_z = Some 5,
                  longitude = Some 90, latitude = None, altitude = None,
                  roll = None, pitch = None, yaw = None\<rparr>"

text \<open>An object that exists in frame 1 only, 5 meters ahead of the platform.\<close>

definition lateObject :: object_record where
  "lateObject = \<lparr>obj_id = ''car'', obj_x = 5, obj_y = 0, obj_z = 0, firstFrame = 1, lastFrame = 2\<rparr>"

text \<open>An object whose lifetime is the frames 0, 1 and 2.\<close>

definition trackedObject :: object_record where
  "trackedObject = \<lparr>obj_id = ''car'', obj_x = 5, obj_y = 0, obj_z = 0, firstFrame = 0, lastFrame = 3\<rparr>"

section \<open>Basic facts about vectors and matrices\<close>

declare collectPoses.simps [simp del] motionsLoop.simps [simp del] verticesLoop.simps [simp del]

lemma orZero_simps [simp]: "orZero None = 0" "orZero (Some r) = r"
  by (simp_all add: orZero_def)

lemma vadd_zero_left: "vadd (0, 0, 0) v = v"
  by (cases v) simp

lemma vadd_zero_right: "vadd v (0, 0, 0) = v"
  by (cases v) simp

lemma mat3_apply_mul: "mat3_apply (mat3_mul A B) v = mat3_apply A (mat3_apply B v)"
proof -
  obtain a11 a12 a13 a21 a22 a23 a31 a32 a33 where A: "A = ((a11, a12, a13), (a21, a22, a23), (a31, a32, a33))"
    by (metis prod_cases3)
  obtain b11 b12 b13 b21 b22 b23 b31 b32 b33 where B: "B = ((b11, b12, b13), (b21, b22, b23), (b31, b32, b33))"
    by (metis prod_cases3)
  obtain x y z where v: "v = (x, y, z)" by (metis prod_cases3)
  show ?thesis unfolding A B v by (simp add: algebra_simps)
qed

lemma mat3_apply_identity: "mat3_apply mat3_identity v = v"
  by (cases v) (simp add: mat3_identity_def)

lemma mat3_apply_vadd: "mat3_apply A (vadd u v) = vadd (mat3_apply A u) (mat3_apply A v)"
proof -
  obtain a11 a12 a13 a21 a22 a23 a31 a32 a33 where A: "A = ((a11, a12, a13), (a21, a22, a23), (a31, a32, a33))"
    by (metis prod_cases3)
  obtain x y z where v: "v = (x, y, z)" by (metis prod_cases3)
  obtain a b c where u: "u = (a, b, c)" by (metis prod_cases3)
  show ?thesis unfolding A u v by (simp add: algebra_simps)
qed

lemma mat3_apply_vneg: "mat3_apply A (vneg v) = vneg (mat3_apply A v)"
proof -
  obtain a11 a12 a13 a21 a22 a23 a31 a32 a33 where A: "A = ((a11, a12, a13), (a21, a22, a23), (a31, a32, a33))"
    by (metis prod_cases3)
  obtain x y z where v: "v = (x, y, z)" by (metis prod_cases3)
  show ?thesis unfolding A v by (simp add: algebra_simps)
qed

lemma mat3_apply_zero: "mat3_apply A (0, 0, 0) = (0, 0, 0)"
proof -
  obtain a11 a12 a13 a21 a22 a23 a31 a32 a33 where A: "A = ((a11, a12, a13), (a21, a22, a23), (a31, a32, a33))"
    by (metis prod_cases3)
  show ?thesis unfolding A by simp
qed

lemma sin_cos_unit: "sin (a::real) * sin a + cos a * cos a = 1"
  using sin_cos_squared_add [of a] by (simp add: power2_eq_square)

lemma rotation_entries_left:
  fixes sr cr sp cp sw cw :: real
  assumes r: "sr * sr + cr * cr = 1" and p: "sp * sp + cp * cp = 1" and w: "sw * sw + cw * cw = 1"
  shows "mat3_mul (mat3_transpose
            ((cw * cp, - sw * cr + cw * sp * sr, sw * sr + cw * sp * cr),
             (sw * cp, cw * cr + sw * sp * sr, - cw * sr + sw * sp * cr),
             (- sp, cp * sr, cp * cr)))
            ((cw * cp, - sw * cr + cw * sp * sr, sw * sr + cw * sp * cr),
             (sw * cp, cw * cr + sw * sp * sr, - cw * sr + sw * sp * cr),
             (- sp, cp * sr, cp * cr)) = mat3_identity"
  unfolding mat3_identity_def mat3_transpose.simps mat3_mul.simps prod.inject
  using assms by (intro conjI; algebra)


lemma rotation_transpose_left:
  "mat3_mul (mat3_transpose (rotationMatrix ang)) (rotationMatrix ang) = mat3_identity"
proof -
  obtain r p w where a: "ang = (r, p, w)" by (cases ang) auto
  show ?thesis unfolding a rotationMatrix.simps
    by (rule rotation_entries_left) (rule sin_cos_unit)+
qed


section \<open>The matrix between two geospatial poses\<close>

text \<open>
  On the matrix of a pose the rigid inverse is the inverse, so it is what the general
  matrix inverse of math.gl computes there.
\<close>

lemma invert_getTransformationMatrix:
  "transformVector (invert (getTransformationMatrix P)) (transformVector (getTransformationMatrix P) v) = v"
proof -
  have c: "mat3_apply (mat3_transpose (rotationMatrix a)) (mat3_apply (rotationMatrix a) u) = u" for a u
    by (simp add: mat3_apply_mul [symmetric] rotation_transpose_left mat3_apply_identity
        del: rotationMatrix.simps)
  have "vadd (vadd a b) (vneg b) = a" for a b :: vec3
    by (cases a; cases b) simp
  then show ?thesis
    by (simp add: transformVector_def invert_def getTransformationMatrix_def mat3_apply_vadd c
        del: rotationMatrix.simps)
qed

lemma transform_parts:
  "getGeospatialToPoseTransform geo from to =
     \<lparr>linearBlock = mat3_mul (poseRotation from) (mat3_transpose (poseRotation to)),
      translation = mat3_apply (poseRotation from)
                      (mat3_apply (mat3_transpose (poseRotation to))
                         (vneg (getGeospatialVector geo from to)))\<rparr>"
proof -
  obtain ox oy oz where d: "getGeospatialVector geo from to = (ox, oy, oz)" by (metis prod_cases3)
  show ?thesis
    by (simp add: getGeospatialToPoseTransform_def d Let_def getTransformationMatrixFromPose_def
        multiplyRight_def invert_def getTransformationMatrix_def Pose_def poseRotation_def
        vadd_zero_right mat3_apply_vneg del: rotationMatrix.simps vneg.simps)
qed

lemma transformVector_transform:
  "transformVector (getGeospatialToPoseTransform geo from to) p =
     mat3_apply (poseRotation from)
       (mat3_apply (mat3_transpose (poseRotation to))
          (vadd p (vneg (getGeospatialVector geo from to))))"
  by (simp add: transform_parts transformVector_def mat3_apply_mul mat3_apply_vadd)

lemma poseRotation_cancel_left:
  "mat3_apply (mat3_transpose (poseRotation q)) (mat3_apply (poseRotation q) v) = v"
  by (simp add: poseRotation_def mat3_apply_mul [symmetric] rotation_transpose_left mat3_apply_identity
      del: rotationMatrix.simps)


lemma poseRotation_plain: "poseRotation (poseAt lng lat) = mat3_identity"
  by (simp add: poseRotation_def poseAt_def mat3_identity_def)

lemma poseRotation_quarter_turn:
  "poseRotation ((poseAt lng lat)\<lparr>yaw := Some (pi / 2)\<rparr>) = ((0, - 1, 0), (1, 0, 0), (0, 0, 1))"
  by (simp add: poseRotation_def poseAt_def)

lemma start_matrix_plain:
  "invert (getTransformationMatrix (Pose (poseAt lng lat))) =
     \<lparr>linearBlock = mat3_identity, translation = (0, 0, 0)\<rparr>"
  by (simp add: invert_def getTransformationMatrix_def Pose_def poseAt_def mat3_identity_def)

lemma transformVector_plain:
  "transformVector \<lparr>linearBlock = mat3_identity, translation = (0, 0, 0)\<rparr> v = v"
  by (simp add: transformVector_def mat3_apply_identity vadd_zero_right)

section \<open>The loops\<close>

lemma collectPoses_single:
  assumes "0 \<le> s" and "s < int (length poses)"
  shows "collectPoses poses s (min (s + 1) (int (length poses))) [] = Inr [pose (poses ! nat s)]"
proof -
  have m: "min (s + 1) (int (length poses)) = s + 1" using assms by simp
  have a: "arrayAt poses s = Some (poses ! nat s)" using assms by (simp add: arrayAt_def)
  show ?thesis unfolding m
    by (subst collectPoses.simps, simp add: a, subst collectPoses.simps, simp)
qed

lemma getPoseTrajectory_single:
  assumes "0 \<le> s" and "s < int (length poses)"
  shows "getPoseTrajectory geo poses s (s + 1) =
         Inr [transformVector (invert (getTransformationMatrix (Pose (pose (poses ! nat s)))))
                (getGeospatialVector geo (pose (poses ! nat s)) (pose (poses ! nat s)))]"
proof -
  have a: "arrayAt poses s = Some (poses ! nat s)" using assms by (simp add: arrayAt_def)
  show ?thesis
    by (simp add: getPoseTrajectory_def Let_def collectPoses_single [OF assms] a)
qed

lemma motionsLoop_Inr:
  "motionsLoop t fs i e acc = Inr ms \<Longrightarrow>
     length ms = length acc + nat (e - i) \<and> take (length acc) ms = acc \<and>
     (\<forall>k. k < nat (e - i) \<longrightarrow>
        (\<exists>objects. getFrameObjects fs (i + int k) = Value objects \<and>
           ms ! (length acc + k) = find (\<lambda>obj. obj_id obj = obj_id t) objects))"
proof (induction t fs i e acc arbitrary: ms rule: motionsLoop.induct)
  case (1 t fs i e acc)
  show ?case
  proof (cases "i < e")
    case False
    with "1.prems" have "ms = acc" by (subst (asm) motionsLoop.simps) simp
    with False show ?thesis by simp
  next
    case True
    let ?f = "\<lambda>objects. find (\<lambda>obj. obj_id obj = obj_id t) objects"
    from "1.prems" True obtain objects where
      v: "getFrameObjects fs i = Value objects" and
      r: "motionsLoop t fs (i + 1) e (acc @ [?f objects]) = Inr ms"
      by (subst (asm) motionsLoop.simps) (auto split: js_value.splits)
    from "1.IH" [OF True v r] have
      len: "length ms = length (acc @ [?f objects]) + nat (e - (i + 1))" and
      tk: "take (length (acc @ [?f objects])) ms = acc @ [?f objects]" and
      nx: "\<forall>k. k < nat (e - (i + 1)) \<longrightarrow>
             (\<exists>objs. getFrameObjects fs (i + 1 + int k) = Value objs \<and>
                ms ! (length (acc @ [?f objects]) + k) = ?f objs)"
      by blast+
    have l: "length ms = length acc + nat (e - i)" using len True by simp
    have t1: "take (length acc) ms = acc"
    proof -
      have "take (length acc) (take (length acc + 1) ms) = take (length acc) (acc @ [?f objects])"
        using tk by simp
      then show ?thesis by simp
    qed
    have h: "ms ! length acc = ?f objects"
    proof -
      have "length acc < length ms" using l True by simp
      then have "ms ! length acc = take (length acc + 1) ms ! length acc" by simp
      also have "\<dots> = (acc @ [?f objects]) ! length acc" using tk by simp
      finally show ?thesis by simp
    qed
    have "\<exists>objs. getFrameObjects fs (i + int k) = Value objs \<and> ms ! (length acc + k) = ?f objs"
      if "k < nat (e - i)" for k
    proof (cases k)
      case 0
      with v h show ?thesis by simp
    next
      case (Suc j)
      with that have "j < nat (e - (i + 1))" by simp
      with nx obtain objs where "getFrameObjects fs (i + 1 + int j) = Value objs"
        and "ms ! (length (acc @ [?f objects]) + j) = ?f objs" by blast
      with Suc show ?thesis by (simp add: add.commute add.left_commute)
    qed
    with l t1 show ?thesis by blast
  qed
qed

lemma verticesLoop_Inr:
  "verticesLoop geo pf s sp ms i vs = Inr out \<Longrightarrow>
     length out = length vs + (length ms - i) \<and> take (length vs) out = vs \<and>
     (\<forall>k. k < length ms - i \<longrightarrow>
        (\<exists>frame step. arrayAt pf (s + int (i + k)) = Some frame \<and> ms ! (i + k) = Some step \<and>
           out ! (length vs + k) =
             transformVector (getGeospatialToPoseTransform geo (pose frame) sp)
               (obj_x step, obj_y step, obj_z step)))"
proof (induction geo pf s sp ms i vs arbitrary: out rule: verticesLoop.induct)
  case (1 geo pf s sp ms i vs)
  show ?case
  proof (cases "i < length ms")
    case False
    with "1.prems" have "out = vs" by (subst (asm) verticesLoop.simps) simp
    with False show ?thesis by simp
  next
    case True
    let ?v = "\<lambda>frame step. transformVector (getGeospatialToPoseTransform geo (pose frame) sp)
                (obj_x step, obj_y step, obj_z step)"
    from "1.prems" True obtain frame step where
      a: "arrayAt pf (s + int i) = Some frame" and
      m: "ms ! i = Some step" and
      r: "verticesLoop geo pf s sp ms (i + 1) (vs @ [?v frame step]) = Inr out"
      by (subst (asm) verticesLoop.simps) (auto split: option.splits)
    from "1.IH" [OF True a m r] have
      len: "length out = length (vs @ [?v frame step]) + (length ms - (i + 1))" and
      tk: "take (length (vs @ [?v frame step])) out = vs @ [?v frame step]" and
      nx: "\<forall>k. k < length ms - (i + 1) \<longrightarrow>
             (\<exists>fr st. arrayAt pf (s + int (i + 1 + k)) = Some fr \<and> ms ! (i + 1 + k) = Some st \<and>
                out ! (length (vs @ [?v frame step]) + k) = ?v fr st)"
      by blast+
    have l: "length out = length vs + (length ms - i)" using len True by simp
    have t1: "take (length vs) out = vs"
    proof -
      have "take (length vs) (take (length vs + 1) out) = take (length vs) (vs @ [?v frame step])"
        using tk by simp
      then show ?thesis by simp
    qed
    have h: "out ! length vs = ?v frame step"
    proof -
      have "length vs < length out" using l True by simp
      then have "out ! length vs = take (length vs + 1) out ! length vs" by simp
      also have "\<dots> = (vs @ [?v frame step]) ! length vs" using tk by simp
      finally show ?thesis by simp
    qed
    have "\<exists>fr st. arrayAt pf (s + int (i + k)) = Some fr \<and> ms ! (i + k) = Some st \<and>
            out ! (length vs + k) = ?v fr st"
      if "k < length ms - i" for k
    proof (cases k)
      case 0
      with a m h show ?thesis by simp
    next
      case (Suc j)
      with that have "j < length ms - (i + 1)" by simp
      with nx obtain fr st where "arrayAt pf (s + int (i + 1 + j)) = Some fr"
        and "ms ! (i + 1 + j) = Some st"
        and "out ! (length (vs @ [?v frame step]) + j) = ?v fr st" by blast
      with Suc show ?thesis by (simp add: add.commute add.left_commute)
    qed
    with l t1 show ?thesis by blast
  qed
qed

lemma motionsLoop_total:
  "(\<forall>g. i \<le> g \<and> g < e \<longrightarrow> (\<exists>objs. getFrameObjects fs g = Value objs)) \<Longrightarrow>
   \<exists>ms. motionsLoop t fs i e acc = Inr ms"
proof (induction t fs i e acc rule: motionsLoop.induct)
  case (1 t fs i e acc)
  show ?case
  proof (cases "i < e")
    case False
    then show ?thesis by (subst motionsLoop.simps) simp
  next
    case True
    with "1.prems" obtain objs where v: "getFrameObjects fs i = Value objs" by force
    have "\<forall>g. i + 1 \<le> g \<and> g < e \<longrightarrow> (\<exists>objs. getFrameObjects fs g = Value objs)"
      using "1.prems" by simp
    from "1.IH" [OF True v this] obtain ms where
      "motionsLoop t fs (i + 1) e (acc @ [find (\<lambda>obj. obj_id obj = obj_id t) objs]) = Inr ms" ..
    with True v show ?thesis by (subst motionsLoop.simps) simp
  qed
qed

lemma verticesLoop_fault:
  "verticesLoop geo pf s sp ms i vs = Inl err \<Longrightarrow> err \<noteq> UndefinedFrameObjects"
proof (induction geo pf s sp ms i vs rule: verticesLoop.induct)
  case (1 geo pf s sp ms i vs)
  from "1.prems" show ?case
    by (subst (asm) verticesLoop.simps) (auto split: if_splits option.splits dest: "1.IH")
qed

lemma getObjectTrajectory_Inr:
  assumes "getObjectTrajectory geo t fs pf s e = Inr vs"
  shows "\<exists>frame0. arrayAt pf s = Some frame0 \<and>
           length vs = nat (min e (lastFrame t) - max s (firstFrame t)) \<and>
           (\<forall>k. k < length vs \<longrightarrow>
              (\<exists>objects step frame.
                 getFrameObjects fs (max s (firstFrame t) + int k) = Value objects \<and>
                 find (\<lambda>obj. obj_id obj = obj_id t) objects = Some step \<and>
                 arrayAt pf (s + int k) = Some frame \<and>
                 vs ! k = transformVector (getGeospatialToPoseTransform geo (pose frame) (pose frame0))
                            (obj_x step, obj_y step, obj_z step)))"
proof -
  from assms obtain frame0 ms where
    f0: "arrayAt pf s = Some frame0" and
    m: "motionsLoop t fs (max (firstFrame t) s) (min (lastFrame t) (min e (lastFrame t))) [] = Inr ms" and
    v: "verticesLoop geo pf s (pose frame0) ms 0 [] = Inr vs"
    by (auto simp: getObjectTrajectory_def getObjectMotions_def Let_def split: option.splits sum.splits)
  let ?lo = "max (firstFrame t) s"
  let ?hi = "min (lastFrame t) (min e (lastFrame t))"
  from motionsLoop_Inr [OF m] have
    ml: "length ms = nat (?hi - ?lo)" and
    mk: "\<forall>k. k < nat (?hi - ?lo) \<longrightarrow>
           (\<exists>objects. getFrameObjects fs (?lo + int k) = Value objects \<and>
              ms ! k = find (\<lambda>obj. obj_id obj = obj_id t) objects)"
    by simp_all
  from verticesLoop_Inr [OF v] have
    vl: "length vs = length ms" and
    vk: "\<forall>k. k < length ms \<longrightarrow>
           (\<exists>frame step. arrayAt pf (s + int k) = Some frame \<and> ms ! k = Some step \<and>
              vs ! k = transformVector (getGeospatialToPoseTransform geo (pose frame) (pose frame0))
                         (obj_x step, obj_y step, obj_z step))"
    by simp_all
  have lo: "?lo = max s (firstFrame t)" by (simp add: max.commute)
  have hi: "?hi = min e (lastFrame t)" by simp
  have "\<exists>objects step frame.
          getFrameObjects fs (max s (firstFrame t) + int k) = Value objects \<and>
          find (\<lambda>obj. obj_id obj = obj_id t) objects = Some step \<and>
          arrayAt pf (s + int k) = Some frame \<and>
          vs ! k = transformVector (getGeospatialToPoseTransform geo (pose frame) (pose frame0))
                     (obj_x step, obj_y step, obj_z step)"
    if "k < length vs" for k
  proof -
    from that vl have k: "k < length ms" by simp
    with vk obtain frame step where
      a: "arrayAt pf (s + int k) = Some frame" and b: "ms ! k = Some step" and
      c: "vs ! k = transformVector (getGeospatialToPoseTransform geo (pose frame) (pose frame0))
                     (obj_x step, obj_y step, obj_z step)" by blast
    from k ml mk obtain objects where
      d: "getFrameObjects fs (?lo + int k) = Value objects" and
      e: "ms ! k = find (\<lambda>obj. obj_id obj = obj_id t) objects" by auto
    from a b c d e show ?thesis unfolding lo by auto
  qed
  with f0 vl ml show ?thesis unfolding lo hi by auto
qed

section \<open>Facts about the great-circle instance\<close>

lemma toDegrees_toRadians [simp]: "toDegrees (toRadians d) = d"
  by (simp add: toDegrees_def toRadians_def)

lemma toRadians_toDegrees [simp]: "toRadians (toDegrees r) = r"
  by (simp add: toDegrees_def toRadians_def)

lemma atan2_zero_nonneg: "0 \<le> x \<Longrightarrow> atan2 0 x = 0"
  by (simp add: atan2_def)

lemma atan2_diag: "0 < x \<Longrightarrow> atan2 x x = pi / 4"
  by (simp add: atan2_def arctan_one)

lemma haversine_angle:
  assumes "0 < t" and "t < pi / 2"
  shows "atan2 (sqrt ((sin t)\<^sup>2)) (sqrt (1 - (sin t)\<^sup>2)) = t"
proof -
  have s: "0 < sin t" using assms by (simp add: sin_gt_zero)
  have c: "0 < cos t" using assms by (simp add: cos_gt_zero)
  have "1 - (sin t)\<^sup>2 = (cos t)\<^sup>2"
    using sin_cos_squared_add [of t] by linarith
  then have "atan2 (sqrt ((sin t)\<^sup>2)) (sqrt (1 - (sin t)\<^sup>2)) = atan2 (sin t) (cos t)"
    using s c by simp
  also have "\<dots> = arctan (tan t)"
    using c by (simp add: atan2_def tan_def)
  also have "\<dots> = t"
    using assms by (simp add: arctan_tan)
  finally show ?thesis .
qed

lemma greatCircleDistance_same: "greatCircleDistance c c = 0"
  by (cases c) (simp add: toRadians_def atan2_def Let_def)

lemma addMetersGreatCircle_zero:
  assumes "- 90 \<le> lat" and "lat \<le> 90"
  shows "addMetersGreatCircle (lng, lat, alt) (0, 0, z) = (lng, lat, alt + z)"
proof -
  have "pi * (- 90) \<le> pi * lat"
    by (rule mult_left_mono) (use assms in simp_all)
  moreover have "pi * lat \<le> pi * 90"
    by (rule mult_left_mono) (use assms in simp_all)
  ultimately have b: "- (pi / 2) \<le> toRadians lat" "toRadians lat \<le> pi / 2"
    by (simp_all add: toRadians_def field_simps)
  have a: "arcsin (sin (toRadians lat)) = toRadians lat"
    using b by (simp add: arcsin_sin)
  have "(sin (toRadians lat))\<^sup>2 \<le> 1"
    using sin_cos_squared_add [of "toRadians lat"] zero_le_power2 [of "cos (toRadians lat)"]
    by linarith
  then have c: "0 \<le> 1 - sin (toRadians lat) * sin (toRadians lat)"
    by (simp add: power2_eq_square)
  show ?thesis
    using c by (simp add: Let_def a atan2_zero_nonneg)
qed

lemma sin_pi_8_squared: "(sin (pi / 8))\<^sup>2 = 1 / 2 - sqrt 2 / 4"
proof -
  have "cos (2 * (pi / 8)) = 1 - 2 * (sin (pi / 8))\<^sup>2" by (rule cos_double_sin)
  moreover have "cos (2 * (pi / 8)) = sqrt 2 / 2" using cos_45 by simp
  ultimately show ?thesis by simp
qed

lemma sin_pi_4_squared: "(sin (pi / 4))\<^sup>2 = 1 / 2"
  by (simp add: sin_45 power2_eq_square)

lemma distance_to_northeast: "greatCircleDistance (0, 0, 0) (90, 45, 0) = earthRadius * (pi / 2)"
  by (simp add: toRadians_def Let_def sin_pi_8_squared sin_pi_4_squared cos_45 atan2_diag)

lemma bearing_to_northeast: "initialBearing (0, 0, 0) (90, 45, 0) = 45"
  by (simp add: toRadians_def Let_def sin_45 cos_45 atan2_diag toDegrees_def)



lemma getGeospatialVector_to_northeast:
  "getGeospatialVector great_circle (poseAt 0 0) (poseAt 90 45) =
     (earthRadius * (pi / 2) * (sqrt 2 / 2), earthRadius * (pi / 2) * (sqrt 2 / 2), 0)"
  by (simp add: getGeospatialVector_def great_circle_def poseAt_def orZero_def
      addMetersGreatCircle_zero distance_to_northeast bearing_to_northeast Let_def toRadians_def sin_45 cos_45
      del: addMetersGreatCircle.simps greatCircleDistance.simps initialBearing.simps)


lemma distance_along_equator: "greatCircleDistance (0, 0, a) (90, 0, b) = earthRadius * (pi / 2)"
  by (simp add: toRadians_def Let_def sin_pi_4_squared atan2_diag)

lemma distance_back_along_equator: "greatCircleDistance (90, 0, 0) (0, 0, 0) = earthRadius * (pi / 2)"
  by (simp add: toRadians_def Let_def sin_pi_4_squared atan2_diag)

lemma bearing_along_equator: "initialBearing (0, 0, a) (90, 0, b) = 90"
  by (simp add: toRadians_def Let_def atan2_def toDegrees_def)

lemma bearing_back_along_equator: "initialBearing (90, 0, 0) (0, 0, 0) = - 90"
  by (simp add: toRadians_def Let_def atan2_def toDegrees_def)

lemma getGeospatialVector_along_equator:
  "getGeospatialVector great_circle (poseAt 0 0) ((poseAt 90 0)\<lparr>yaw := Some (pi / 2)\<rparr>) =
     (earthRadius * (pi / 2), 0, 0)"
  by (simp add: getGeospatialVector_def great_circle_def poseAt_def
      addMetersGreatCircle_zero distance_along_equator bearing_along_equator Let_def toRadians_def
      del: addMetersGreatCircle.simps greatCircleDistance.simps initialBearing.simps)

lemma getGeospatialVector_back_along_equator:
  "getGeospatialVector great_circle ((poseAt 90 0)\<lparr>yaw := Some (pi / 2)\<rparr>) (poseAt 0 0) =
     (- (earthRadius * (pi / 2)), 0, 0)"
  by (simp add: getGeospatialVector_def great_circle_def poseAt_def
      addMetersGreatCircle_zero distance_back_along_equator bearing_back_along_equator Let_def toRadians_def
      del: addMetersGreatCircle.simps greatCircleDistance.simps initialBearing.simps)

lemma great_circle_update: "great_circle\<lparr>addMetersToLngLat := addMetersGreatCircle\<rparr> = great_circle"
  by (simp add: great_circle_def)

lemma getGeospatialVector_same_anchor:
  "longitude p = longitude q \<Longrightarrow> latitude p = latitude q \<Longrightarrow> altitude p = altitude q \<Longrightarrow>
   pose_x p = pose_x q \<Longrightarrow> pose_y p = pose_y q \<Longrightarrow> pose_z p = pose_z q \<Longrightarrow>
   getGeospatialVector (great_circle\<lparr>addMetersToLngLat := am\<rparr>) p q = (0, 0, 0)"
  by (simp add: getGeospatialVector_def great_circle_def Let_def greatCircleDistance_same
      del: greatCircleDistance.simps initialBearing.simps)

lemma getGeospatialVector_at_origin: "getGeospatialVector great_circle (poseAt 0 0) (poseAt 0 0) = (0, 0, 0)"
  using getGeospatialVector_same_anchor [of "poseAt 0 0" "poseAt 0 0" addMetersGreatCircle]
  by (simp add: great_circle_update)

lemma getGeospatialVector_turning:
  "getGeospatialVector great_circle ((poseAt 0 0)\<lparr>yaw := Some (pi / 2)\<rparr>) (poseAt 0 0) = (0, 0, 0)"
  using getGeospatialVector_same_anchor
          [of "(poseAt 0 0)\<lparr>yaw := Some (pi / 2)\<rparr>" "poseAt 0 0" addMetersGreatCircle]
  by (simp add: great_circle_update poseAt_def)

lemma distance_due_north:
  "greatCircleDistance (0, 0, a) (0, 1 / 1000, b) = earthRadius * (pi / 180000)"
proof -
  have p: "0 < pi / 360000" "pi / 360000 < pi / 2" by simp_all
  show ?thesis
    using haversine_angle [OF p] by (simp add: toRadians_def Let_def)
qed

lemma bearing_due_north: "initialBearing (0, 0, a) (0, 1 / 1000, b) = 0"
proof -
  have "0 < sin (pi / 180000)" by (rule sin_gt_zero) simp_all
  then show ?thesis
    by (simp add: toRadians_def Let_def atan2_def toDegrees_def)
qed

text \<open>
  The spec's geodesic sanity scenario on the great-circle instance: from (0, 0) to
  latitude 0.001 the vector points due north and is about 111.2 meters long.
\<close>

lemma getGeospatialVector_due_north:
  "getGeospatialVector great_circle (poseAt 0 0) (poseAt 0 (1 / 1000)) =
     (0, earthRadius * (pi / 180000), 0)"
  by (simp add: getGeospatialVector_def great_circle_def poseAt_def
      addMetersGreatCircle_zero distance_due_north bearing_due_north Let_def toRadians_def
      del: addMetersGreatCircle.simps greatCircleDistance.simps initialBearing.simps)




section \<open>The example inputs\<close>

lemma trackedObject_fields:
  "obj_id trackedObject = ''car''" "obj_x trackedObject = 5" "obj_y trackedObject = 0"
  "obj_z trackedObject = 0" "firstFrame trackedObject = 0" "lastFrame trackedObject = 3"
  by (simp_all add: trackedObject_def)

lemma lateObject_fields:
  "obj_id lateObject = ''car''" "obj_x lateObject = 5" "obj_y lateObject = 0"
  "obj_z lateObject = 0" "firstFrame lateObject = 1" "lastFrame lateObject = 2"
  by (simp_all add: lateObject_def)

lemma getPoseTrajectory_movingPoses:
  "getPoseTrajectory great_circle movingPoses 0 2 =
     Inr [(0, 0, 0), (earthRadius * (pi / 2) * (sqrt 2 / 2), earthRadius * (pi / 2) * (sqrt 2 / 2), 0)]"
  by (simp add: getPoseTrajectory_def movingPoses_def collectPoses.simps arrayAt_def Let_def
      getGeospatialVector_at_origin getGeospatialVector_to_northeast start_matrix_plain transformVector_plain)

lemma getObjectTrajectory_tracked:
  "getObjectTrajectory great_circle trackedObject
     (MapFrames (mapOfArray [[trackedObject], [trackedObject\<lparr>obj_x := 7\<rparr>]])) turningPoses 0 2
   = Inr [(5, 0, 0), (0, 7, 0)]"
proof -
  have m: "getObjectMotions trackedObject
     (MapFrames (mapOfArray [[trackedObject], [trackedObject\<lparr>obj_x := 7\<rparr>]])) 0 2
     = Inr [Some trackedObject, Some (trackedObject\<lparr>obj_x := 7\<rparr>)]"
    by (simp add: getObjectMotions_def trackedObject_fields motionsLoop.simps getFrameObjects_def
        mapOfArray_def)
  show ?thesis
    by (simp add: getObjectTrajectory_def arrayAt_def turningPoses_def m trackedObject_fields
        verticesLoop.simps transformVector_transform getGeospatialVector_at_origin getGeospatialVector_turning poseRotation_plain
        poseRotation_quarter_turn mat3_identity_def)
qed

lemma getObjectMotions_gap:
  "getObjectMotions trackedObject (ArrayFrames [[trackedObject], [], [trackedObject]]) 0 3
     = Inr [Some trackedObject, None, Some trackedObject]"
  by (simp add: getObjectMotions_def trackedObject_fields motionsLoop.simps getFrameObjects_def arrayAt_def)

lemma getObjectTrajectory_gap:
  "getObjectTrajectory great_circle trackedObject
     (ArrayFrames [[trackedObject], [], [trackedObject]]) turningPoses 0 3 = Inl UndefinedMotion"
  by (simp add: getObjectTrajectory_def arrayAt_def turningPoses_def
      getObjectMotions_gap trackedObject_fields verticesLoop.simps)

section \<open>Object offsets and platform poses of the same frame\<close>

text \<open>
  Claim C1, evaluated where the code departs from it. The object \<open>lateObject\<close> exists in
  frame 1 only and the trajectory is asked from frame 0. The code returns one point: the
  offset recorded at frame 1, transformed with the pose of frame 0 (the identity), that is
  \<open>(5, 0, 0)\<close>. With the pose of frame 1, the frame of the offset, the point is
  \<open>(0, 5, 0)\<close>.
\<close>

theorem getObjectTrajectory_late_object:
  "getObjectTrajectory great_circle lateObject (ArrayFrames [[], [lateObject]]) turningPoses 0 2
     = Inr [(5, 0, 0)]
   \<and> transformVector
         (getGeospatialToPoseTransform great_circle (pose (turningPoses ! 1)) (pose (turningPoses ! 0)))
         (obj_x lateObject, obj_y lateObject, obj_z lateObject) = (0, 5, 0)"
proof -
  have m: "getObjectMotions lateObject (ArrayFrames [[], [lateObject]]) 0 2 = Inr [Some lateObject]"
    by (simp add: getObjectMotions_def lateObject_fields motionsLoop.simps getFrameObjects_def
        arrayAt_def)
  have 1: "getObjectTrajectory great_circle lateObject (ArrayFrames [[], [lateObject]]) turningPoses 0 2
     = Inr [(5, 0, 0)]"
    by (simp add: getObjectTrajectory_def arrayAt_def turningPoses_def m lateObject_fields
        verticesLoop.simps transformVector_transform getGeospatialVector_at_origin
        poseRotation_plain mat3_identity_def)
  have 2: "transformVector
         (getGeospatialToPoseTransform great_circle (pose (turningPoses ! 1)) (pose (turningPoses ! 0)))
         (obj_x lateObject, obj_y lateObject, obj_z lateObject) = (0, 5, 0)"
    by (simp add: turningPoses_def lateObject_fields transformVector_transform
        getGeospatialVector_turning poseRotation_plain poseRotation_quarter_turn mat3_identity_def)
  from 1 2 show ?thesis by simp
qed

section \<open>The start point of the platform trajectory\<close>

text \<open>
  Claim C2, evaluated where the code departs from it. The only pose of the array has the
  local offset \<open>x = 1\<close>, and the trajectory is asked for the frames \<open>[0, 1)\<close>. The
  geospatial vector from the start pose to itself is \<open>(0, 0, 0)\<close>, and the inverse of
  the matrix of the start pose, whose translation is the local offset of the pose, sends
  it to \<open>(-1, 0, 0)\<close>: the one point returned is not the origin. This holds for every
  geodetic-offset primitive \<open>addMeters\<close>.
\<close>

theorem getPoseTrajectory_offset_start:
  "getPoseTrajectory (great_circle\<lparr>addMetersToLngLat := addMeters\<rparr>)
     [\<lparr>pose = (poseAt 0 0)\<lparr>pose_x := Some 1\<rparr>\<rparr>] 0 1 = Inr [(- 1, 0, 0)]"
proof -
  let ?p = "(poseAt 0 0)\<lparr>pose_x := Some 1\<rparr>"
  have v: "getGeospatialVector (great_circle\<lparr>addMetersToLngLat := addMeters\<rparr>) ?p ?p = (0, 0, 0)"
    by (rule getGeospatialVector_same_anchor) simp_all
  have m: "invert (getTransformationMatrix (Pose ?p)) =
             \<lparr>linearBlock = mat3_identity, translation = (- 1, 0, 0)\<rparr>"
    by (simp add: invert_def getTransformationMatrix_def Pose_def poseAt_def mat3_identity_def)
  have "getPoseTrajectory (great_circle\<lparr>addMetersToLngLat := addMeters\<rparr>) [\<lparr>pose = ?p\<rparr>] 0 (0 + 1) =
          Inr [transformVector (invert (getTransformationMatrix (Pose ?p))) (0, 0, 0)]"
    using getPoseTrajectory_single [of 0 "[\<lparr>pose = ?p\<rparr>]" "great_circle\<lparr>addMetersToLngLat := addMeters\<rparr>"]
    by (simp add: v)
  then show ?thesis
    by (simp add: m transformVector_def mat3_identity_def)
qed

text \<open>
  For a start pose without local offset, and primitives whose distance from a coordinate
  to itself is 0, the start point of the platform trajectory is the origin.
\<close>

lemma getPoseTrajectory_start_is_origin:
  assumes "0 \<le> s" and "s < int (length poses)"
    and "orZero (pose_x (pose (poses ! nat s))) = 0"
    and "orZero (pose_y (pose (poses ! nat s))) = 0"
    and "orZero (pose_z (pose (poses ! nat s))) = 0"
    and "\<And>c. distance geo c c = 0"
  shows "getPoseTrajectory geo poses s (s + 1) = Inr [(0, 0, 0)]"
proof -
  let ?p = "pose (poses ! nat s)"
  have v: "getGeospatialVector geo ?p ?p = (0, 0, 0)"
    by (simp add: getGeospatialVector_def Let_def assms(6))
  have t: "translation (invert (getTransformationMatrix (Pose ?p))) = (0, 0, 0)"
    by (simp add: invert_def getTransformationMatrix_def Pose_def assms(3,4,5) mat3_apply_zero
        del: rotationMatrix.simps)
  have "transformVector (invert (getTransformationMatrix (Pose ?p))) (0, 0, 0) = (0, 0, 0)"
    by (simp add: transformVector_def t mat3_apply_zero)
  then show ?thesis
    by (simp add: getPoseTrajectory_single [OF assms(1,2)] v)
qed

section \<open>The round trip between two poses\<close>



text \<open>
  With different orientations the round trip of the program is not the identity even
  for opposite geospatial vectors: from the pose at (0, 0) without rotation to the pose
  at longitude 90 with a quarter turn of yaw and back, the point \<open>(1, 2, 3)\<close> comes back
  as \<open>(1 - E, 2 + E, 3)\<close>, \<open>E\<close> being a quarter of the great circle.
\<close>

lemma getGeospatialToPoseTransform_round_trip_rotated:
  "transformVector (getGeospatialToPoseTransform great_circle ((poseAt 90 0)\<lparr>yaw := Some (pi / 2)\<rparr>) (poseAt 0 0))
     (transformVector (getGeospatialToPoseTransform great_circle (poseAt 0 0) ((poseAt 90 0)\<lparr>yaw := Some (pi / 2)\<rparr>))
        (1, 2, 3))
   = (1 - earthRadius * (pi / 2), 2 + earthRadius * (pi / 2), 3)"
  by (simp add: transformVector_transform getGeospatialVector_along_equator
      getGeospatialVector_back_along_equator poseRotation_plain poseRotation_quarter_turn
      mat3_identity_def)


section \<open>The parts of the matrix between two poses\<close>



text \<open>
  With a rotated \<open>from\<close> the translational part of the program's matrix is not expressed
  in the axes of \<open>to\<close>: from the pose at longitude 90 with a quarter turn of yaw to the
  pose at (0, 0) without rotation it is \<open>(0, E, 0)\<close>, and the negated geospatial vector
  in the axes of \<open>to\<close> is \<open>(E, 0, 0)\<close>.
\<close>

lemma getGeospatialToPoseTransform_rotated_from:
  "translation (getGeospatialToPoseTransform great_circle ((poseAt 90 0)\<lparr>yaw := Some (pi / 2)\<rparr>) (poseAt 0 0))
     = (0, earthRadius * (pi / 2), 0)
   \<and> mat3_apply (mat3_transpose (poseRotation (poseAt 0 0)))
         (vneg (getGeospatialVector great_circle ((poseAt 90 0)\<lparr>yaw := Some (pi / 2)\<rparr>) (poseAt 0 0)))
     = (earthRadius * (pi / 2), 0, 0)"
  by (simp add: transform_parts getGeospatialVector_back_along_equator poseRotation_plain
      poseRotation_quarter_turn mat3_identity_def)


section \<open>The displacement vector\<close>

text \<open>
  Claim C5. For every pair of records \<open>from\<close> and \<open>to\<close>, a missing field counting as 0:
  when the absolute coordinate of \<open>from\<close>, its anchor with its meter offset added, is
  \<open>(lng1, lat1, alt1)\<close> and the one of \<open>to\<close> is \<open>(lng2, lat2, alt2)\<close>,
  \<open>getGeospatialVector\<close> returns exactly \<open>(d sin b, d cos b, alt2 - alt1)\<close>, where \<open>d\<close> is
  the distance and \<open>b\<close> the bearing, converted to radians, from the first absolute
  coordinate to the second.
\<close>

theorem getGeospatialVector_formula:
  assumes "addMetersToLngLat geo
             (case longitude from of None \<Rightarrow> 0 | Some v \<Rightarrow> v,
              case latitude from of None \<Rightarrow> 0 | Some v \<Rightarrow> v,
              case altitude from of None \<Rightarrow> 0 | Some v \<Rightarrow> v)
             (case pose_x from of None \<Rightarrow> 0 | Some v \<Rightarrow> v,
              case pose_y from of None \<Rightarrow> 0 | Some v \<Rightarrow> v,
              case pose_z from of None \<Rightarrow> 0 | Some v \<Rightarrow> v) = (lng1, lat1, alt1)"
    and "addMetersToLngLat geo
             (case longitude to of None \<Rightarrow> 0 | Some v \<Rightarrow> v,
              case latitude to of None \<Rightarrow> 0 | Some v \<Rightarrow> v,
              case altitude to of None \<Rightarrow> 0 | Some v \<Rightarrow> v)
             (case pose_x to of None \<Rightarrow> 0 | Some v \<Rightarrow> v,
              case pose_y to of None \<Rightarrow> 0 | Some v \<Rightarrow> v,
              case pose_z to of None \<Rightarrow> 0 | Some v \<Rightarrow> v) = (lng2, lat2, alt2)"
  shows "getGeospatialVector geo from to =
           (distance geo (lng1, lat1, alt1) (lng2, lat2, alt2)
              * sin (degreesToRadians geo (bearing geo (lng1, lat1, alt1) (lng2, lat2, alt2))),
            distance geo (lng1, lat1, alt1) (lng2, lat2, alt2)
              * cos (degreesToRadians geo (bearing geo (lng1, lat1, alt1) (lng2, lat2, alt2))),
            alt2 - alt1)"
  using assms by (simp add: getGeospatialVector_def orZero_def Let_def)

text \<open>
  On the great-circle instance, from the anchor at (0, 0), altitude 10 and \<^verbatim>\<open>z: 2\<close>: to
  the record at latitude 0.001 the vector points due north, about 111.2 meters, and to
  the record at longitude 90 it points due east, a quarter of the great circle; both
  records have no altitude and \<^verbatim>\<open>z: 5\<close>, 7 meters below the anchor.
\<close>

theorem getGeospatialVector_formula_witness:
  "getGeospatialVector great_circle raisedAnchor northRecord = (0, earthRadius * (pi / 180000), - 7)
   \<and> getGeospatialVector great_circle raisedAnchor eastRecord = (earthRadius * (pi / 2), 0, - 7)"
proof -
  have a: "addMetersToLngLat great_circle
             (case longitude raisedAnchor of None \<Rightarrow> 0 | Some v \<Rightarrow> v,
              case latitude raisedAnchor of None \<Rightarrow> 0 | Some v \<Rightarrow> v,
              case altitude raisedAnchor of None \<Rightarrow> 0 | Some v \<Rightarrow> v)
             (case pose_x raisedAnchor of None \<Rightarrow> 0 | Some v \<Rightarrow> v,
              case pose_y raisedAnchor of None \<Rightarrow> 0 | Some v \<Rightarrow> v,
              case pose_z raisedAnchor of None \<Rightarrow> 0 | Some v \<Rightarrow> v) = (0, 0, 12)"
    by (simp add: great_circle_def raisedAnchor_def addMetersGreatCircle_zero
        del: addMetersGreatCircle.simps)
  have n: "addMetersToLngLat great_circle
             (case longitude northRecord of None \<Rightarrow> 0 | Some v \<Rightarrow> v,
              case latitude northRecord of None \<Rightarrow> 0 | Some v \<Rightarrow> v,
              case altitude northRecord of None \<Rightarrow> 0 | Some v \<Rightarrow> v)
             (case pose_x northRecord of None \<Rightarrow> 0 | Some v \<Rightarrow> v,
              case pose_y northRecord of None \<Rightarrow> 0 | Some v \<Rightarrow> v,
              case pose_z northRecord of None \<Rightarrow> 0 | Some v \<Rightarrow> v) = (0, 1 / 1000, 5)"
    by (simp add: great_circle_def northRecord_def addMetersGreatCircle_zero
        del: addMetersGreatCircle.simps)
  have e: "addMetersToLngLat great_circle
             (case longitude eastRecord of None \<Rightarrow> 0 | Some v \<Rightarrow> v,
              case latitude eastRecord of None \<Rightarrow> 0 | Some v \<Rightarrow> v,
              case altitude eastRecord of None \<Rightarrow> 0 | Some v \<Rightarrow> v)
             (case pose_x eastRecord of None \<Rightarrow> 0 | Some v \<Rightarrow> v,
              case pose_y eastRecord of None \<Rightarrow> 0 | Some v \<Rightarrow> v,
              case pose_z eastRecord of None \<Rightarrow> 0 | Some v \<Rightarrow> v) = (90, 0, 5)"
    by (simp add: great_circle_def eastRecord_def addMetersGreatCircle_zero
        del: addMetersGreatCircle.simps)
  from getGeospatialVector_formula [OF a n] getGeospatialVector_formula [OF a e]
  show ?thesis
    by (simp add: great_circle_def distance_due_north bearing_due_north distance_along_equator
        bearing_along_equator toRadians_def
        del: greatCircleDistance.simps initialBearing.simps)
qed

section \<open>Lifetime clipping\<close>

text \<open>
  Claim C6. When \<open>getObjectTrajectory\<close> returns normally, the length of the trajectory
  is \<open>max(0, min(endFrame, lastFrame) - max(startFrame, firstFrame))\<close>, and its \<open>k\<close>-th
  point is computed from the record of the target resolved at the absolute frame
  \<open>max(startFrame, firstFrame) + k\<close>, a frame of \<open>[firstFrame, lastFrame)\<close>: no point
  comes from a frame outside the lifetime of the target.
\<close>

theorem getObjectTrajectory_lifetime_clipping:
  assumes "getObjectTrajectory geo targetObject objectFrames poseFrames startFrame endFrame = Inr vertices"
  shows "int (length vertices) =
           max 0 (min endFrame (lastFrame targetObject) - max startFrame (firstFrame targetObject))
         \<and> (\<forall>k. k < length vertices \<longrightarrow>
               firstFrame targetObject \<le> max startFrame (firstFrame targetObject) + int k
             \<and> max startFrame (firstFrame targetObject) + int k < lastFrame targetObject
             \<and> (\<exists>objects step frame frame0.
                   getFrameObjects objectFrames (max startFrame (firstFrame targetObject) + int k) = Value objects
                 \<and> find (\<lambda>obj. obj_id obj = obj_id targetObject) objects = Some step
                 \<and> arrayAt poseFrames (startFrame + int k) = Some frame
                 \<and> arrayAt poseFrames startFrame = Some frame0
                 \<and> vertices ! k =
                     transformVector (getGeospatialToPoseTransform geo (pose frame) (pose frame0))
                       (obj_x step, obj_y step, obj_z step)))"
proof -
  from getObjectTrajectory_Inr [OF assms] obtain frame0 where
    all: "arrayAt poseFrames startFrame = Some frame0 \<and>
          length vertices = nat (min endFrame (lastFrame targetObject) - max startFrame (firstFrame targetObject)) \<and>
          (\<forall>k. k < length vertices \<longrightarrow>
              (\<exists>objects step frame.
                 getFrameObjects objectFrames (max startFrame (firstFrame targetObject) + int k) = Value objects \<and>
                 find (\<lambda>obj. obj_id obj = obj_id targetObject) objects = Some step \<and>
                 arrayAt poseFrames (startFrame + int k) = Some frame \<and>
                 vertices ! k = transformVector (getGeospatialToPoseTransform geo (pose frame) (pose frame0))
                            (obj_x step, obj_y step, obj_z step)))" ..
  note f0 = all [THEN conjunct1]
  note len = all [THEN conjunct2, THEN conjunct1]
  note pts = all [THEN conjunct2, THEN conjunct2]
  have 1: "int (length vertices) =
           max 0 (min endFrame (lastFrame targetObject) - max startFrame (firstFrame targetObject))"
  proof -
    have "int (nat z) = max 0 z" for z :: int by (simp add: max_def)
    then show ?thesis unfolding len .
  qed
  have 2: "firstFrame targetObject \<le> max startFrame (firstFrame targetObject) + int k
         \<and> max startFrame (firstFrame targetObject) + int k < lastFrame targetObject"
    if "k < length vertices" for k
    using that len by linarith
  from 1 2 pts f0 show ?thesis by blast
qed

text \<open>
  A trajectory over a \<^verbatim>\<open>Map\<close> of two frames, clipped by the end frame 2 inside the
  lifetime \<open>[0, 3)\<close> of the object.
\<close>

theorem getObjectTrajectory_lifetime_clipping_witness:
  "getObjectTrajectory great_circle trackedObject
     (MapFrames (mapOfArray [[trackedObject], [trackedObject\<lparr>obj_x := 7\<rparr>]])) turningPoses 0 2
     = Inr [(5, 0, 0), (0, 7, 0)]
   \<and> int (length [(5 :: real, 0 :: real, 0 :: real), (0, 7, 0)])
       = max 0 (min 2 (lastFrame trackedObject) - max 0 (firstFrame trackedObject))
   \<and> firstFrame trackedObject \<le> max 0 (firstFrame trackedObject) + int 1
   \<and> max 0 (firstFrame trackedObject) + int 1 < lastFrame trackedObject
   \<and> (\<exists>objects step frame frame0.
         getFrameObjects (MapFrames (mapOfArray [[trackedObject], [trackedObject\<lparr>obj_x := 7\<rparr>]]))
           (max 0 (firstFrame trackedObject) + int 1) = Value objects
       \<and> find (\<lambda>obj. obj_id obj = obj_id trackedObject) objects = Some step
       \<and> arrayAt turningPoses (0 + int 1) = Some frame
       \<and> arrayAt turningPoses 0 = Some frame0
       \<and> [(5, 0, 0), (0, 7, 0)] ! 1 =
           transformVector (getGeospatialToPoseTransform great_circle (pose frame) (pose frame0))
             (obj_x step, obj_y step, obj_z step))"
proof -
  note all = getObjectTrajectory_lifetime_clipping [OF getObjectTrajectory_tracked]
  have "1 < length [(5 :: real, 0 :: real, 0 :: real), (0, 7, 0)]" by simp
  with all [THEN conjunct2, THEN spec, of 1] have
    "firstFrame trackedObject \<le> max 0 (firstFrame trackedObject) + int 1
     \<and> max 0 (firstFrame trackedObject) + int 1 < lastFrame trackedObject
     \<and> (\<exists>objects step frame frame0.
         getFrameObjects (MapFrames (mapOfArray [[trackedObject], [trackedObject\<lparr>obj_x := 7\<rparr>]]))
           (max 0 (firstFrame trackedObject) + int 1) = Value objects
       \<and> find (\<lambda>obj. obj_id obj = obj_id trackedObject) objects = Some step
       \<and> arrayAt turningPoses (0 + int 1) = Some frame
       \<and> arrayAt turningPoses 0 = Some frame0
       \<and> [(5, 0, 0), (0, 7, 0)] ! 1 =
           transformVector (getGeospatialToPoseTransform great_circle (pose frame) (pose frame0))
             (obj_x step, obj_y step, obj_z step))"
    by (rule mp)
  with all [THEN conjunct1] getObjectTrajectory_tracked show ?thesis by blast
qed

section \<open>A missing object\<close>

text \<open>
  Claim C7, as amended. If for some absolute frame of the intersected range
  \<open>[max(startFrame, firstFrame), min(endFrame, lastFrame))\<close> the object list of the frame
  holds no record with the id of the target, \<open>getObjectTrajectory\<close> does not return
  normally: it ends in a fault, and never returns a shorter trajectory. When every frame
  of the range has an object list, the lookup step \<open>getObjectMotions\<close> itself returns
  normally, with \<^verbatim>\<open>undefined\<close> for that frame, and the fault is not one of the lookup:
  it is raised in the loop of \<open>getObjectTrajectory\<close>, or before the lookup when
  \<^verbatim>\<open>poseFrames[startFrame]\<close> is missing.
\<close>

theorem getObjectTrajectory_missing_object_faults:
  assumes "max startFrame (firstFrame targetObject) \<le> f"
    and "f < min endFrame (lastFrame targetObject)"
    and "getFrameObjects objectFrames f = Value objects"
    and "\<forall>obj \<in> set objects. obj_id obj \<noteq> obj_id targetObject"
  shows "(\<exists>e. getObjectTrajectory geo targetObject objectFrames poseFrames startFrame endFrame = Inl e)
       \<and> ((\<forall>g. max startFrame (firstFrame targetObject) \<le> g \<and> g < min endFrame (lastFrame targetObject)
                 \<longrightarrow> (\<exists>objs. getFrameObjects objectFrames g = Value objs))
            \<longrightarrow> (\<exists>motions.
                   getObjectMotions targetObject objectFrames startFrame (min endFrame (lastFrame targetObject))
                     = Inr motions
                 \<and> motions ! nat (f - max startFrame (firstFrame targetObject)) = None)
              \<and> getObjectTrajectory geo targetObject objectFrames poseFrames startFrame endFrame
                    \<noteq> Inl UndefinedFrameObjects)"
proof -
  let ?lo = "max startFrame (firstFrame targetObject)"
  let ?hi = "min endFrame (lastFrame targetObject)"
  let ?P = "\<lambda>obj. obj_id obj = obj_id targetObject"
  have none: "find ?P objects = None"
    using assms(4) by (simp add: find_None_iff)
  have lo: "max (firstFrame targetObject) startFrame = ?lo" by (simp add: max.commute)
  have hi: "min (lastFrame targetObject) ?hi = ?hi" by simp
  have fault: "\<exists>e. getObjectTrajectory geo targetObject objectFrames poseFrames startFrame endFrame = Inl e"
  proof (cases "getObjectTrajectory geo targetObject objectFrames poseFrames startFrame endFrame")
    case (Inl e)
    then show ?thesis by blast
  next
    case (Inr vs)
    let ?k = "nat (f - ?lo)"
    from getObjectTrajectory_Inr [OF Inr] obtain frame0 where
      all: "arrayAt poseFrames startFrame = Some frame0 \<and>
            length vs = nat (?hi - ?lo) \<and>
            (\<forall>k. k < length vs \<longrightarrow>
                (\<exists>objs step frame.
                   getFrameObjects objectFrames (?lo + int k) = Value objs \<and>
                   find ?P objs = Some step \<and>
                   arrayAt poseFrames (startFrame + int k) = Some frame \<and>
                   vs ! k = transformVector (getGeospatialToPoseTransform geo (pose frame) (pose frame0))
                              (obj_x step, obj_y step, obj_z step)))" ..
    note len = all [THEN conjunct2, THEN conjunct1]
    note pts = all [THEN conjunct2, THEN conjunct2]
    have k: "?k < length vs" using assms(1,2) len by linarith
    have f: "?lo + int ?k = f" using assms(1) by simp
    from pts k obtain objs step where
      "getFrameObjects objectFrames (?lo + int ?k) = Value objs" "find ?P objs = Some step"
      by blast
    then have "getFrameObjects objectFrames f = Value objs" "find ?P objs = Some step"
      unfolding f by simp_all
    with assms(3) none show ?thesis by simp
  qed
  have origin: "(\<exists>motions. getObjectMotions targetObject objectFrames startFrame ?hi = Inr motions
                   \<and> motions ! nat (f - ?lo) = None)
              \<and> getObjectTrajectory geo targetObject objectFrames poseFrames startFrame endFrame
                    \<noteq> Inl UndefinedFrameObjects"
    if lists: "\<forall>g. ?lo \<le> g \<and> g < ?hi \<longrightarrow> (\<exists>objs. getFrameObjects objectFrames g = Value objs)"
  proof -
    from motionsLoop_total [OF lists] obtain ms where
      ms: "motionsLoop targetObject objectFrames ?lo ?hi [] = Inr ms" ..
    then have gm: "getObjectMotions targetObject objectFrames startFrame ?hi = Inr ms"
      by (simp add: getObjectMotions_def Let_def lo)
    from motionsLoop_Inr [OF ms] have
      mk: "\<forall>k. k < nat (?hi - ?lo) \<longrightarrow>
             (\<exists>objs. getFrameObjects objectFrames (?lo + int k) = Value objs \<and> ms ! k = find ?P objs)"
      by simp
    have k: "nat (f - ?lo) < nat (?hi - ?lo)" using assms(1,2) by linarith
    have f: "?lo + int (nat (f - ?lo)) = f" using assms(1) by simp
    from mk k obtain objs where
      "getFrameObjects objectFrames (?lo + int (nat (f - ?lo))) = Value objs"
      "ms ! nat (f - ?lo) = find ?P objs" by blast
    then have "getFrameObjects objectFrames f = Value objs" "ms ! nat (f - ?lo) = find ?P objs"
      unfolding f by simp_all
    with assms(3) none have m0: "ms ! nat (f - ?lo) = None" by simp
    have "getObjectTrajectory geo targetObject objectFrames poseFrames startFrame endFrame
            \<noteq> Inl UndefinedFrameObjects"
      using gm by (auto simp: getObjectTrajectory_def Let_def split: option.splits
          dest: verticesLoop_fault)
    with gm m0 show ?thesis by blast
  qed
  from fault origin show ?thesis by blast
qed

text \<open>The object is missing from frame 1 of three frames.\<close>

theorem getObjectTrajectory_missing_object_faults_witness:
  "(\<exists>e. getObjectTrajectory great_circle trackedObject
          (ArrayFrames [[trackedObject], [], [trackedObject]]) turningPoses 0 3 = Inl e)
   \<and> (\<exists>motions. getObjectMotions trackedObject (ArrayFrames [[trackedObject], [], [trackedObject]]) 0
                    (min 3 (lastFrame trackedObject)) = Inr motions
                \<and> motions ! nat (1 - max 0 (firstFrame trackedObject)) = None)
   \<and> getObjectTrajectory great_circle trackedObject
          (ArrayFrames [[trackedObject], [], [trackedObject]]) turningPoses 0 3 \<noteq> Inl UndefinedFrameObjects"
proof -
  let ?frames = "ArrayFrames [[trackedObject], [], [trackedObject]]"
  have 1: "max 0 (firstFrame trackedObject) \<le> 1" by (simp add: trackedObject_fields)
  have 2: "1 < min 3 (lastFrame trackedObject)" by (simp add: trackedObject_fields)
  have 3: "getFrameObjects ?frames 1 = Value []"
    by (simp add: getFrameObjects_def arrayAt_def)
  have 4: "\<forall>obj \<in> set []. obj_id obj \<noteq> obj_id trackedObject" by simp
  have 5: "\<forall>g. max 0 (firstFrame trackedObject) \<le> g \<and> g < min 3 (lastFrame trackedObject)
             \<longrightarrow> (\<exists>objs. getFrameObjects ?frames g = Value objs)"
  proof (intro allI impI)
    fix g :: int
    assume "max 0 (firstFrame trackedObject) \<le> g \<and> g < min 3 (lastFrame trackedObject)"
    then have "g = 0 \<or> g = 1 \<or> g = 2" by (auto simp: trackedObject_fields)
    then show "\<exists>objs. getFrameObjects ?frames g = Value objs"
      by (auto simp: getFrameObjects_def arrayAt_def)
  qed
  note both = getObjectTrajectory_missing_object_faults [OF 1 2 3 4, of great_circle turningPoses]
  from both [THEN conjunct1] both [THEN conjunct2, THEN mp, OF 5]
  show ?thesis by blast
qed

text \<open>
  Claim C7 as stated fails on the same input: the lookup step, \<open>getObjectMotions\<close>,
  returns normally with \<^verbatim>\<open>undefined\<close> at frame 1, and the fault is raised later, in the
  loop of \<open>getObjectTrajectory\<close>, when \<^verbatim>\<open>step.x\<close> is read.
\<close>

theorem getObjectTrajectory_missing_object_counterexample:
  "getFrameObjects (ArrayFrames [[trackedObject], [], [trackedObject]]) 1 = Value []
   \<and> getObjectMotions trackedObject (ArrayFrames [[trackedObject], [], [trackedObject]]) 0 3
       = Inr [Some trackedObject, None, Some trackedObject]
   \<and> getObjectTrajectory great_circle trackedObject
         (ArrayFrames [[trackedObject], [], [trackedObject]]) turningPoses 0 3 = Inl UndefinedMotion
   \<and> getObjectTrajectory great_circle trackedObject
         (ArrayFrames [[trackedObject], [], [trackedObject]]) turningPoses 0 3 \<noteq> Inl UndefinedFrameObjects"
  by (simp add: getObjectMotions_gap getObjectTrajectory_gap) (simp add: getFrameObjects_def arrayAt_def)

section \<open>Frame-storage uniformity\<close>

text \<open>
  Claim C8. For every frame number \<open>n\<close>, every array \<open>A\<close> and every frame-number-keyed
  map \<open>M\<close> that maps exactly each index \<open>i\<close> of \<open>A\<close> to \<open>A[i]\<close> and has no other entry,
  the frame lookup returns the same result on \<open>(A, n)\<close> and on \<open>(M, n)\<close>.
\<close>

theorem getFrameObjects_storage_uniform:
  assumes "dom M = {k. 0 \<le> k \<and> k < int (length A)}"
    and "\<forall>k. 0 \<le> k \<and> k < int (length A) \<longrightarrow> M k = Some (A ! nat k)"
  shows "getFrameObjects (MapFrames M) n = getFrameObjects (ArrayFrames A) n"
proof (cases "0 \<le> n \<and> n < int (length A)")
  case True
  with assms(2) have "M n = Some (A ! nat n)" by blast
  with True show ?thesis by (simp add: getFrameObjects_def arrayAt_def)
next
  case False
  with assms(1) have "n \<notin> dom M" by simp
  then have "M n = None" by (simp add: domIff)
  with False show ?thesis by (simp add: getFrameObjects_def arrayAt_def)
qed

theorem getFrameObjects_storage_uniform_witness:
  "getFrameObjects (MapFrames (mapOfArray [''a'', ''b''])) 1 = getFrameObjects (ArrayFrames [''a'', ''b'']) 1
   \<and> getFrameObjects (MapFrames (mapOfArray [''a'', ''b''])) 2 = getFrameObjects (ArrayFrames [''a'', ''b'']) 2
   \<and> getFrameObjects (ArrayFrames [''a'', ''b'']) 1 = Value ''b''
   \<and> getFrameObjects (ArrayFrames [''a'', ''b'']) 2 = (Undefined :: string js_value)"
proof -
  have d: "dom (mapOfArray [''a'', ''b'']) = {k. 0 \<le> k \<and> k < int (length [''a'', ''b''])}"
    by (auto simp: mapOfArray_def dom_def)
  have e: "\<forall>k. 0 \<le> k \<and> k < int (length [''a'', ''b''])
             \<longrightarrow> mapOfArray [''a'', ''b''] k = Some ([''a'', ''b''] ! nat k)"
    by (simp add: mapOfArray_def)
  show ?thesis
    using getFrameObjects_storage_uniform [OF d e, of 1]
      getFrameObjects_storage_uniform [OF d e, of 2]
    by (simp add: getFrameObjects_def arrayAt_def)
qed

section \<open>Clipping of the platform trajectory\<close>

text \<open>
  Claim C9. For every pose array, every start frame and every end frame beyond the
  length of the array, \<open>getPoseTrajectory\<close> yields exactly what it yields with the end
  frame equal to the length of the array.
\<close>

theorem getPoseTrajectory_clip_end:
  "int (length poses) < endFrame \<Longrightarrow>
   getPoseTrajectory geo poses startFrame endFrame =
   getPoseTrajectory geo poses startFrame (int (length poses))"
  by (simp add: getPoseTrajectory_def)

text \<open>
  The clipping on the platform that moves from (0, 0) to (90, 45): with the end frame 7
  the trajectory is the one of the end frame 2, the length of the array.
\<close>

theorem getPoseTrajectory_clip_end_witness:
  "int (length movingPoses) < 7
   \<and> getPoseTrajectory great_circle movingPoses 0 7 = getPoseTrajectory great_circle movingPoses 0 2
   \<and> getPoseTrajectory great_circle movingPoses 0 7 =
       Inr [(0, 0, 0), (earthRadius * (pi / 2) * (sqrt 2 / 2), earthRadius * (pi / 2) * (sqrt 2 / 2), 0)]"
proof -
  have l: "int (length movingPoses) < 7" by (simp add: movingPoses_def)
  have n: "int (length movingPoses) = 2" by (simp add: movingPoses_def)
  show ?thesis
    using getPoseTrajectory_clip_end [OF l, of great_circle 0] l
    by (simp add: n getPoseTrajectory_movingPoses)
qed

text \<open>
  Claim C10. When \<open>poses[startFrame]\<close> exists and the clipped end
  \<open>min(endFrame, len(poses))\<close> is not beyond \<open>startFrame\<close>, \<open>getPoseTrajectory\<close>
  returns the empty trajectory and does not fault.
\<close>

theorem getPoseTrajectory_empty_range:
  assumes "0 \<le> startFrame" and "startFrame < int (length poses)"
    and "min endFrame (int (length poses)) \<le> startFrame"
  shows "getPoseTrajectory geo poses startFrame endFrame = Inr []"
proof -
  define lim where "lim = min endFrame (int (length poses))"
  have "\<not> startFrame < lim" using assms(3) unfolding lim_def by linarith
  then have "collectPoses poses startFrame lim [] = Inr []"
    by (subst collectPoses.simps) simp
  then have "collectPoses poses startFrame (min endFrame (int (length poses))) [] = Inr []"
    by (simp add: lim_def)
  moreover have "arrayAt poses startFrame = Some (poses ! nat startFrame)"
    using assms(1,2) by (simp add: arrayAt_def)
  ultimately show ?thesis by (simp add: getPoseTrajectory_def Let_def)
qed

text \<open>Empty ranges on the same platform: the end frame at or before the start frame.\<close>

theorem getPoseTrajectory_empty_range_witness:
  "getPoseTrajectory great_circle movingPoses 1 1 = Inr []
   \<and> getPoseTrajectory great_circle movingPoses 1 0 = Inr []
   \<and> getPoseTrajectory great_circle movingPoses 0 (- 3) = Inr []"
proof -
  have n: "int (length movingPoses) = 2" by (simp add: movingPoses_def)
  show ?thesis
    using getPoseTrajectory_empty_range [of 1 movingPoses 1 great_circle]
      getPoseTrajectory_empty_range [of 1 movingPoses 0 great_circle]
      getPoseTrajectory_empty_range [of 0 movingPoses "- 3" great_circle]
    by (simp add: n)
qed

end
